theory Spec2Isabelle
  imports Complex_Main "HOL-Library.Log_Nat"
begin

section \<open>Values and documents\<close>

text \<open>
  The ledger stores four kinds of documents (users, groups, expenses, debts) in a
  document database, through an object-document mapper whose schemas are the ones of
  models/Expense.js, models/Debt.js and models/Group.js.  An \<open>ObjectId\<close> is only ever
  compared for equality (through its string form), so it is modelled as a natural number.
  A \<open>Date\<close> is its number of milliseconds since the epoch, and a field that may be absent
  from a document is an \<open>option\<close>.  The clock (\<open>Date.now()\<close>, \<open>new Date()\<close>) is
  an explicit argument \<open>now\<close>.
\<close>

type_synonym objectId = nat
type_synonym number = real
type_synonym date = int

datatype error = Error string

subsection \<open>JavaScript numbers\<close>

text \<open>
  A JavaScript \<open>Number\<close> is an IEEE-754 double.  A finite double is modelled by the real
  number it denotes, and each arithmetic operation of the source by the exact operation
  followed by \<open>fl\<close>, the rounding to the nearest number with a 53-bit significand, a tie
  going to the even significand.  The exponent is not bounded in the model: it agrees with
  the machine as long as no result overflows or falls into the subnormal range (below
  about \<open>10^-308\<close>), which no amount of money does.  A decimal literal of the source
  such as \<open>0.01\<close> denotes the double \<open>fl (1 / 100)\<close>.  The one place where the
  source can compute \<open>NaN\<close> (a balance of a user who is not a key of the balance
  object) is modelled with \<open>None\<close>.

  \<open>floor_log2 x\<close> is the exponent \<open>e\<close> with \<open>2^e \<le> x < 2^(e + 1)\<close>, for \<open>x > 0\<close>.
\<close>

definition floor_log2 :: "real \<Rightarrow> int" where
  "floor_log2 x =
     (if 1 \<le> x then int (floorlog 2 (nat \<lfloor>x\<rfloor>)) - 1
      else - int (floorlog 2 (nat (\<lceil>1 / x\<rceil> - 1))))"

definition round_half_even :: "real \<Rightarrow> int" where
  "round_half_even y =
     (let n = \<lfloor>y\<rfloor>; r = y - of_int n
      in if r < 1 / 2 then n else if 1 / 2 < r then n + 1 else if even n then n else n + 1)"

definition fl :: "real \<Rightarrow> number" where
  "fl x =
     (if x = 0 then 0
      else let e = floor_log2 \<bar>x\<bar> - 52
           in sgn x * of_int (round_half_even (\<bar>x\<bar> / 2 powi e)) * 2 powi e)"

text \<open>The operators \<open>+\<close>, \<open>-\<close>, \<open>*\<close> and \<open>/\<close> on doubles.\<close>

definition dplus :: "number \<Rightarrow> number \<Rightarrow> number" where
  "dplus a b = fl (a + b)"

definition dminus :: "number \<Rightarrow> number \<Rightarrow> number" where
  "dminus a b = fl (a - b)"

definition dtimes :: "number \<Rightarrow> number \<Rightarrow> number" where
  "dtimes a b = fl (a * b)"

definition ddivide :: "number \<Rightarrow> number \<Rightarrow> number" where
  "ddivide a b = fl (a / b)"

text \<open>
  \<open>Math.round\<close> gives the nearest integer, a tie going up; its result is exact.
  \<open>Math.abs\<close>, \<open>Math.min\<close>, \<open>Math.max\<close> and the comparisons are exact as well.
\<close>

definition Math_round :: "number \<Rightarrow> number" where
  "Math_round x = of_int \<lfloor>x + 1 / 2\<rfloor>"

text \<open>\<open>xs.reduce((sum, x) => sum + f(x), 0)\<close>\<close>

definition reduce_sum :: "('a \<Rightarrow> number) \<Rightarrow> 'a list \<Rightarrow> number" where
  "reduce_sum f xs = foldl (\<lambda>sum x. dplus sum (f x)) 0 xs"

subsection \<open>Expense (models/Expense.js)\<close>

text \<open>
  The schema of an expense declares the array \<open>splits\<close>.  It declares no path
  \<open>splitDetails\<close>: the mapper drops such a field from what \<open>new Expense(...)\<close> is
  given, and reading \<open>expense.splitDetails\<close> on a document gives \<open>undefined\<close>,
  here \<open>None\<close>.  A split's \<open>percentage\<close> is \<open>None\<close> when the source computes a
  non-finite double for it (a division by an amount of zero).
\<close>

record split =
  user :: objectId
  s_amount :: number
  percentage :: "number option"
  s_isPaid :: bool

record expense =
  e_id :: objectId
  e_amount :: number
  paidBy :: objectId
  e_group :: objectId
  splits :: "split list"
  splitMethod :: string
  e_isActive :: bool
  isSettled :: bool

definition splitDetails :: "expense \<Rightarrow> split list option" where
  "splitDetails this = None"

record customSplit =
  cs_userId :: objectId
  cs_amount :: number

record percentageSplit =
  ps_userId :: objectId
  ps_percentage :: number

text \<open>
  The three split methods mutate \<open>this\<close> and return it, or throw before any mutation.
  Each is modelled as a function from the expense to the pair of what was thrown (if
  anything) and the expense afterwards.
\<close>

definition calculateEqualSplits :: "expense \<Rightarrow> objectId list \<Rightarrow> expense" where
  "calculateEqualSplits this userIds =
     (let splitAmount = ddivide (e_amount this) (of_nat (length userIds))
      in this\<lparr>splits :=
                 map (\<lambda>userId.
                        \<lparr>user = userId,
                         s_amount = ddivide (Math_round (dtimes splitAmount 100)) 100,
                         percentage =
                           Some (ddivide (Math_round (dtimes (ddivide 100 (of_nat (length userIds))) 100)) 100),
                         s_isPaid = (userId = paidBy this)\<rparr>) userIds,
               splitMethod := ''equal''\<rparr>)"

definition calculateCustomSplits ::
  "expense \<Rightarrow> customSplit list \<Rightarrow> error option \<times> expense" where
  "calculateCustomSplits this customSplits =
     (let totalSplit = reduce_sum cs_amount customSplits
      in if \<bar>dminus totalSplit (e_amount this)\<bar> > fl (1 / 100)
         then (Some (Error ''Custom split amounts must equal the total expense amount''), this)
         else (None,
               this\<lparr>splits :=
                      map (\<lambda>split.
                             \<lparr>user = cs_userId split,
                              s_amount = cs_amount split,
                              percentage =
                                (if e_amount this = 0 then None
                                 else Some (ddivide (Math_round (dtimes (ddivide (cs_amount split) (e_amount this)) 10000)) 100)),
                              s_isPaid = (cs_userId split = paidBy this)\<rparr>) customSplits,
                    splitMethod := ''custom''\<rparr>))"

definition calculatePercentageSplits ::
  "expense \<Rightarrow> percentageSplit list \<Rightarrow> error option \<times> expense" where
  "calculatePercentageSplits this percentageSplits =
     (let totalPercentage = reduce_sum ps_percentage percentageSplits
      in if \<bar>dminus totalPercentage 100\<bar> > fl (1 / 100)
         then (Some (Error ''Percentage splits must total 100%''), this)
         else (None,
               this\<lparr>splits :=
                      map (\<lambda>split.
                             \<lparr>user = ps_userId split,
                              s_amount =
                                ddivide (Math_round (dtimes (ddivide (dtimes (e_amount this) (ps_percentage split)) 100) 100)) 100,
                              percentage = Some (ps_percentage split),
                              s_isPaid = (ps_userId split = paidBy this)\<rparr>) percentageSplits,
                    splitMethod := ''percentage''\<rparr>))"

text \<open>
  The \<open>pre("save")\<close> hook of the expense schema: what it passes to \<open>next\<close>, that is
  the error with which saving the expense is refused, if any.
\<close>

definition expense_pre_save :: "expense \<Rightarrow> error option" where
  "expense_pre_save this =
     (if splits this \<noteq> []
      then (let totalSplitAmount = reduce_sum s_amount (splits this)
            in if \<bar>dminus totalSplitAmount (e_amount this)\<bar> > fl (1 / 100)
               then Some (Error ''Split amounts must equal the total expense amount'')
               else None)
      else None)"

subsection \<open>Debt (models/Debt.js)\<close>

text \<open>
  The record has the paths of the debt schema that the modelled code reads or writes, and
  \<open>isNew\<close>, the flag the mapper keeps on a document that has not been stored yet.
  \<open>expense\<close> and \<open>originalAmount\<close> are required by the schema, so a document built
  without them has them absent.  The schema declares no path \<open>status\<close>: the mapper drops
  it from what \<open>new Debt(...)\<close> is given, no stored debt has it, and reading it gives
  \<open>undefined\<close>, here \<open>None\<close>.
\<close>

record payment =
  p_amount :: number
  p_paidAt :: date
  p_note :: string
  p_confirmedBy :: "objectId option"

record debt =
  d_id :: objectId
  debtor :: objectId
  creditor :: objectId
  d_expense :: "objectId option"
  d_group :: objectId
  d_amount :: number
  originalAmount :: "number option"
  d_isPaid :: bool
  d_paidAt :: "date option"
  partialPayments :: "payment list"
  reminderCount :: nat
  lastReminderSent :: "date option"
  nextReminderDate :: "date option"
  d_isActive :: bool
  dueDate :: "date option"
  d_notes :: string
  isNew :: bool

definition status :: "debt \<Rightarrow> string option" where
  "status this = None"

definition remainingAmount :: "debt \<Rightarrow> number" where
  "remainingAmount this =
     (let totalPaid = reduce_sum p_amount (partialPayments this)
      in max 0 (dminus (d_amount this) totalPaid))"

definition calculateNextReminder :: "date \<Rightarrow> debt \<Rightarrow> debt" where
  "calculateNextReminder now this =
     (let hours = 24
      in this\<lparr>nextReminderDate := Some (now + hours * 60 * 60 * 1000)\<rparr>)"

text \<open>
  The \<open>pre("save")\<close> hook, and \<open>save\<close> when the document passes validation: the
  hook runs, the document is written and is no longer new.  A \<open>Date\<close> object is truthy
  whatever its value, so \<open>!this.dueDate\<close> holds exactly when the field is absent.
\<close>

definition pre_save :: "date \<Rightarrow> debt \<Rightarrow> debt" where
  "pre_save now this =
     (let this1 = (if isNew this \<and> dueDate this = None
                   then this\<lparr>dueDate := Some (now + 7 * 24 * 60 * 60 * 1000)\<rparr>
                   else this)
      in if isNew this1 \<and> nextReminderDate this1 = None
         then calculateNextReminder now this1
         else this1)"

definition save :: "date \<Rightarrow> debt \<Rightarrow> debt" where
  "save now this = (pre_save now this)\<lparr>isNew := False\<rparr>"

text \<open>
  Before a document is written, \<open>save()\<close> validates it against the schema, and rejects
  with a \<open>ValidationError\<close>, writing nothing, when a validator fails: \<open>expense\<close> and
  \<open>originalAmount\<close> are required, \<open>amount\<close> has the minimum \<open>0.01\<close>,
  \<open>notes\<close> has at most 500 characters, and each partial payment has an amount of at
  least 0 and a note of at most 200 characters.  (\<open>debtor\<close>, \<open>creditor\<close>,
  \<open>group\<close> and \<open>amount\<close> are required too, and always present in the record.)
  Validation comes before the \<open>pre("save")\<close> hook.
\<close>

definition payment_valid :: "payment \<Rightarrow> bool" where
  "payment_valid p = (0 \<le> p_amount p \<and> length (p_note p) \<le> 200)"

definition validate :: "debt \<Rightarrow> bool" where
  "validate this =
     (d_expense this \<noteq> None \<and> originalAmount this \<noteq> None \<and> fl (1 / 100) \<le> d_amount this
      \<and> length (d_notes this) \<le> 500 \<and> list_all payment_valid (partialPayments this))"

text \<open>
  \<open>addPartialPayment\<close> returns what it throws or rejects with (if anything) and the
  debt as it is stored afterwards: a document that is refused by the two guards or by
  validation is not written.
\<close>

definition addPartialPayment ::
  "date \<Rightarrow> number \<Rightarrow> string \<Rightarrow> objectId option \<Rightarrow> debt \<Rightarrow> error option \<times> debt" where
  "addPartialPayment now amount note' confirmedBy' this =
     (if amount \<le> 0
      then (Some (Error ''Payment amount must be greater than 0''), this)
      else if amount > remainingAmount this
      then (Some (Error ''Payment amount cannot exceed remaining debt''), this)
      else (let this1 = this\<lparr>partialPayments := partialPayments this @
                          [\<lparr>p_amount = amount, p_paidAt = now, p_note = note',
                            p_confirmedBy = confirmedBy'\<rparr>]\<rparr>;
                this2 = (if remainingAmount this1 \<le> fl (1 / 100)
                         then this1\<lparr>d_isPaid := True, d_paidAt := Some now\<rparr>
                         else this1)
            in if validate this2 then (None, save now this2)
               else (Some (Error ''ValidationError''), this)))"

definition sendReminder :: "date \<Rightarrow> debt \<Rightarrow> debt" where
  "sendReminder now this =
     save now (calculateNextReminder now
                 (this\<lparr>reminderCount := reminderCount this + 1, lastReminderSent := Some now\<rparr>))"

text \<open>
  The Debt collection is a list of documents.  \<open>findNeedingReminders\<close> is the query
  \<open>{isPaid: false, isActive: true, $or: [{nextReminderDate: {$lte: now}},
  {nextReminderDate: {$exists: false}}]}\<close>.
\<close>

definition findNeedingReminders :: "date \<Rightarrow> debt list \<Rightarrow> debt list" where
  "findNeedingReminders now ds =
     filter (\<lambda>d. d_isPaid d = False \<and> d_isActive d = True \<and>
                  (case nextReminderDate d of Some t \<Rightarrow> t \<le> now | None \<Rightarrow> True)) ds"

text \<open>
  \<open>findByIdAndUpdate\<close> changes the first stored document with the given \<open>_id\<close>; it runs
  no validator.  \<open>doc.save()\<close> on a document that was read from the collection writes
  the document back under its \<open>_id\<close>.
\<close>

fun findByIdAndUpdate :: "objectId \<Rightarrow> (debt \<Rightarrow> debt) \<Rightarrow> debt list \<Rightarrow> debt list" where
  "findByIdAndUpdate i upd [] = []"
| "findByIdAndUpdate i upd (d # ds) =
     (if d_id d = i then upd d # ds else d # findByIdAndUpdate i upd ds)"

definition save_doc :: "date \<Rightarrow> debt \<Rightarrow> debt list \<Rightarrow> debt list" where
  "save_doc now this ds = findByIdAndUpdate (d_id this) (\<lambda>_. save now this) ds"

text \<open>
  \<open>optimizeDebts\<close>: the key \<open>`${debt.debtor}-${debt.creditor}`\<close> of the map of mutual
  debts is modelled as the pair (debtor, creditor); the string form of an ObjectId holds
  no dash, so the pair and the string identify each other.  \<open>optimize_step\<close> is the
  body of the \<open>for\<close> loop, on the map and the collection; it returns the
  \<open>ValidationError\<close> with which \<open>debt.save()\<close> rejects, if it does, and then
  \<open>optimize_loop\<close> stops, as the rejection leaves the \<open>async\<close> function.
\<close>

type_synonym debtMap = "objectId \<times> objectId \<Rightarrow> debt option"

definition optimize_step ::
  "date \<Rightarrow> debt \<Rightarrow> debtMap \<times> debt list \<Rightarrow> error option \<times> debtMap \<times> debt list" where
  "optimize_step now debt st =
     (let debtMap = fst st; db = snd st;
          key1 = (debtor debt, creditor debt);
          key2 = (creditor debt, debtor debt)
      in case debtMap key2 of
           Some mutualDebt \<Rightarrow>
             (let netAmount = dminus (d_amount debt) (d_amount mutualDebt)
              in if netAmount > 0 then
                   (if validate (debt\<lparr>d_amount := netAmount\<rparr>)
                    then (None, debtMap(key2 := None),
                          findByIdAndUpdate (d_id mutualDebt)
                            (\<lambda>d. d\<lparr>d_isPaid := True, d_paidAt := Some now,
                                    d_notes := ''Netted off with mutual debt''\<rparr>)
                            (save_doc now (debt\<lparr>d_amount := netAmount\<rparr>) db))
                    else (Some (Error ''ValidationError''), debtMap, db))
                 else if netAmount < 0 then
                   (if validate (debt\<lparr>d_isPaid := True, d_paidAt := Some now,
                                      d_notes := ''Netted off with mutual debt''\<rparr>)
                    then (None, debtMap(key2 := None),
                          save_doc now
                            (debt\<lparr>d_isPaid := True, d_paidAt := Some now,
                                  d_notes := ''Netted off with mutual debt''\<rparr>)
                            (findByIdAndUpdate (d_id mutualDebt)
                               (\<lambda>d. d\<lparr>d_amount := \<bar>netAmount\<bar>\<rparr>) db))
                    else (Some (Error ''ValidationError''), debtMap,
                          findByIdAndUpdate (d_id mutualDebt)
                            (\<lambda>d. d\<lparr>d_amount := \<bar>netAmount\<bar>\<rparr>) db))
                 else
                   (if validate (debt\<lparr>d_isPaid := True, d_paidAt := Some now,
                                      d_notes := ''Netted off with equal mutual debt''\<rparr>)
                    then (None, debtMap(key2 := None),
                          findByIdAndUpdate (d_id mutualDebt)
                            (\<lambda>d. d\<lparr>d_isPaid := True, d_paidAt := Some now,
                                    d_notes := ''Netted off with equal mutual debt''\<rparr>)
                            (save_doc now
                               (debt\<lparr>d_isPaid := True, d_paidAt := Some now,
                                     d_notes := ''Netted off with equal mutual debt''\<rparr>) db))
                    else (Some (Error ''ValidationError''), debtMap, db)))
         | None \<Rightarrow> (None, debtMap(key1 \<mapsto> debt), db))"

fun optimize_loop ::
  "date \<Rightarrow> debt list \<Rightarrow> debtMap \<times> debt list \<Rightarrow> error option \<times> debtMap \<times> debt list" where
  "optimize_loop now [] st = (None, st)"
| "optimize_loop now (debt # rest) st =
     (case optimize_step now debt st of
        (None, st1) \<Rightarrow> optimize_loop now rest st1
      | (Some err, st1) \<Rightarrow> (Some err, st1))"

definition optimizeDebts :: "date \<Rightarrow> objectId \<Rightarrow> debt list \<Rightarrow> error option \<times> debt list" where
  "optimizeDebts now groupId db =
     (let debts = filter (\<lambda>d. d_group d = groupId \<and> d_isPaid d = False \<and> d_isActive d = True) db;
          r = optimize_loop now debts (Map.empty, db)
      in (fst r, snd (snd r)))"

text \<open>
  The loop body and the loop when every \<open>debt.save()\<close> passes validation, and the two
  documents as one round of the loop body then leaves them, when it nets the current
  \<open>debt\<close> against the \<open>mutualDebt\<close> it found in the map: the three branches of
  \<open>optimize_step\<close>, read document by document.
\<close>

definition netted_step :: "date \<Rightarrow> debt \<Rightarrow> debtMap \<times> debt list \<Rightarrow> debtMap \<times> debt list" where
  "netted_step now debt st =
     (let debtMap = fst st; db = snd st;
          key1 = (debtor debt, creditor debt);
          key2 = (creditor debt, debtor debt)
      in case debtMap key2 of
           Some mutualDebt \<Rightarrow>
             (let netAmount = dminus (d_amount debt) (d_amount mutualDebt)
              in if netAmount > 0 then
                   (debtMap(key2 := None),
                    findByIdAndUpdate (d_id mutualDebt)
                      (\<lambda>d. d\<lparr>d_isPaid := True, d_paidAt := Some now,
                              d_notes := ''Netted off with mutual debt''\<rparr>)
                      (save_doc now (debt\<lparr>d_amount := netAmount\<rparr>) db))
                 else if netAmount < 0 then
                   (debtMap(key2 := None),
                    save_doc now
                      (debt\<lparr>d_isPaid := True, d_paidAt := Some now,
                            d_notes := ''Netted off with mutual debt''\<rparr>)
                      (findByIdAndUpdate (d_id mutualDebt)
                         (\<lambda>d. d\<lparr>d_amount := \<bar>netAmount\<bar>\<rparr>) db))
                 else
                   (debtMap(key2 := None),
                    findByIdAndUpdate (d_id mutualDebt)
                      (\<lambda>d. d\<lparr>d_isPaid := True, d_paidAt := Some now,
                              d_notes := ''Netted off with equal mutual debt''\<rparr>)
                      (save_doc now
                         (debt\<lparr>d_isPaid := True, d_paidAt := Some now,
                               d_notes := ''Netted off with equal mutual debt''\<rparr>) db)))
         | None \<Rightarrow> (debtMap(key1 \<mapsto> debt), db))"

fun netted_loop :: "date \<Rightarrow> debt list \<Rightarrow> debtMap \<times> debt list \<Rightarrow> debtMap \<times> debt list" where
  "netted_loop now [] st = st"
| "netted_loop now (debt # rest) st = netted_loop now rest (netted_step now debt st)"

definition mutual_after :: "date \<Rightarrow> debt \<Rightarrow> debt \<Rightarrow> debt" where
  "mutual_after now debt mutualDebt =
     (let netAmount = dminus (d_amount debt) (d_amount mutualDebt)
      in if netAmount > 0
         then mutualDebt\<lparr>d_isPaid := True, d_paidAt := Some now,
                          d_notes := ''Netted off with mutual debt''\<rparr>
         else if netAmount < 0 then mutualDebt\<lparr>d_amount := \<bar>netAmount\<bar>\<rparr>
         else mutualDebt\<lparr>d_isPaid := True, d_paidAt := Some now,
                          d_notes := ''Netted off with equal mutual debt''\<rparr>)"

definition current_after :: "date \<Rightarrow> debt \<Rightarrow> debt \<Rightarrow> debt" where
  "current_after now debt mutualDebt =
     (let netAmount = dminus (d_amount debt) (d_amount mutualDebt)
      in if netAmount > 0 then save now (debt\<lparr>d_amount := netAmount\<rparr>)
         else if netAmount < 0
         then save now (debt\<lparr>d_isPaid := True, d_paidAt := Some now,
                              d_notes := ''Netted off with mutual debt''\<rparr>)
         else save now (debt\<lparr>d_isPaid := True, d_paidAt := Some now,
                              d_notes := ''Netted off with equal mutual debt''\<rparr>))"

subsection \<open>Debt calculator (utils/debtCalculator.js)\<close>

text \<open>
  A group's \<open>members\<close> are sub-documents \<open>{user, role, joinedAt, isActive}\<close>, each
  with an \<open>_id\<close> of its own; \<open>populate("members")\<close> on this array, which has no
  \<open>ref\<close>, leaves it as it is.  \<open>paidBy\<close> is taken to refer to a stored user, so that
  \<open>expense.paidBy._id\<close> is the stored reference.
\<close>

record member =
  m_id :: objectId
  m_user :: objectId
  m_isActive :: bool

record group =
  g_id :: objectId
  members :: "member list"

record store =
  expenses :: "expense list"
  groups :: "group list"
  debts :: "debt list"

text \<open>
  Two settings of the mapper that the repository leaves at the default of whichever
  version is installed.  With \<open>strictPopulate\<close>, populating a path that the schema does
  not declare rejects the query with a \<open>StrictPopulateError\<close>, once there is a document
  to populate; without it the call is ignored.  With \<open>strictQuery\<close>, a filter key that
  the schema does not declare is removed from the filter; without it the key is matched
  against the stored documents.
\<close>

record odm =
  strictPopulate :: bool
  strictQuery :: bool

text \<open>
  \<open>memberBalances\<close> is a plain object: its keys are kept in insertion order (the
  string form of an ObjectId is never an array index), and \<open>Object.entries\<close> lists
  them in that order.  Reading a key that is not there gives \<open>undefined\<close>, and
  \<open>undefined + x\<close> is \<open>NaN\<close>, here \<open>None\<close>.
\<close>

type_synonym balances = "(objectId \<times> number option) list"

fun set_balance :: "objectId \<Rightarrow> number option \<Rightarrow> balances \<Rightarrow> balances" where
  "set_balance k v [] = [(k, v)]"
| "set_balance k v (b # bs) = (if fst b = k then (k, v) # bs else b # set_balance k v bs)"

definition update_balance :: "objectId \<Rightarrow> (number \<Rightarrow> number) \<Rightarrow> balances \<Rightarrow> balances" where
  "update_balance k f bs =
     set_balance k (case map_of bs k of Some (Some b) \<Rightarrow> Some (f b) | _ \<Rightarrow> None) bs"

text \<open>
  The body of \<open>expenses.forEach\<close>: \<open>expense.splitDetails.forEach\<close> throws a
  \<open>TypeError\<close> when \<open>expense.splitDetails\<close> is \<open>undefined\<close>.
\<close>

definition expense_balances :: "expense \<Rightarrow> balances \<Rightarrow> error + balances" where
  "expense_balances expense memberBalances =
     (let totalAmount = e_amount expense;
          memberBalances1 = update_balance (paidBy expense) (\<lambda>b. dplus b totalAmount) memberBalances
      in case splitDetails expense of
           None \<Rightarrow> Inl (Error ''TypeError'')
         | Some details \<Rightarrow>
             Inr (foldl (\<lambda>bs split. update_balance (user split) (\<lambda>b. dminus b (s_amount split)) bs)
                        memberBalances1 details))"

fun expenses_forEach :: "expense list \<Rightarrow> balances \<Rightarrow> error + balances" where
  "expenses_forEach [] memberBalances = Inr memberBalances"
| "expenses_forEach (expense # rest) memberBalances =
     (case expense_balances expense memberBalances of
        Inl err \<Rightarrow> Inl err
      | Inr memberBalances1 \<Rightarrow> expenses_forEach rest memberBalances1)"

definition member_balances :: "member list \<Rightarrow> expense list \<Rightarrow> error + balances" where
  "member_balances members' expenses' =
     expenses_forEach expenses'
       (foldl (\<lambda>bs member. set_balance (m_id member) (Some 0) bs) [] members')"

record transfer =
  t_debtor :: objectId
  t_creditor :: objectId
  t_amount :: number

text \<open>
  The \<open>while\<close> loop of \<open>calculateOptimalDebts\<close>, on the two indices, the two arrays
  (whose entries it updates in place) and the debts pushed so far.
\<close>

function match_loop ::
  "nat \<Rightarrow> nat \<Rightarrow> (objectId \<times> number) list \<Rightarrow> (objectId \<times> number) list \<Rightarrow> transfer list
     \<Rightarrow> transfer list" where
  "match_loop debtorIndex creditorIndex debtors creditors debts' =
     (if debtorIndex < length debtors \<and> creditorIndex < length creditors
      then match_loop
             (if dminus (snd (debtors ! debtorIndex))
                   (min (snd (debtors ! debtorIndex)) (snd (creditors ! creditorIndex))) < fl (1 / 100)
              then debtorIndex + 1 else debtorIndex)
             (if dminus (snd (creditors ! creditorIndex))
                   (min (snd (debtors ! debtorIndex)) (snd (creditors ! creditorIndex))) < fl (1 / 100)
              then creditorIndex + 1 else creditorIndex)
             (debtors[debtorIndex :=
                (fst (debtors ! debtorIndex),
                 dminus (snd (debtors ! debtorIndex))
                   (min (snd (debtors ! debtorIndex)) (snd (creditors ! creditorIndex))))])
             (creditors[creditorIndex :=
                (fst (creditors ! creditorIndex),
                 dminus (snd (creditors ! creditorIndex))
                   (min (snd (debtors ! debtorIndex)) (snd (creditors ! creditorIndex))))])
             (debts' @
                [\<lparr>t_debtor = fst (debtors ! debtorIndex),
                  t_creditor = fst (creditors ! creditorIndex),
                  t_amount =
                    ddivide (Math_round (dtimes (min (snd (debtors ! debtorIndex))
                                                     (snd (creditors ! creditorIndex))) 100)) 100\<rparr>])
      else debts')"
  by pat_completeness auto
termination
proof (relation "measure (\<lambda>(di, ci, ds, cs, acc). (length ds - di) + (length cs - ci))")
  show "wf (measure (\<lambda>(di, ci, ds, cs, acc). (length ds - di) + (length cs - ci)))"
    by simp
next
  fix debtorIndex creditorIndex :: nat
    and debtors creditors :: "(objectId \<times> number) list" and debts' :: "transfer list"
  assume run: "debtorIndex < length debtors \<and> creditorIndex < length creditors"
  define a where "a = snd (debtors ! debtorIndex)"
  define b where "b = snd (creditors ! creditorIndex)"
  have cent: "0 < fl (1 / 100)"
    by (simp add: fl_def floor_log2_def round_half_even_def Let_def compute_floorlog
          power_int_minus_divide)
  have zero: "dminus x x = 0" for x
    by (simp add: dminus_def fl_def)
  have "dminus a (min a b) < fl (1 / 100) \<or> dminus b (min a b) < fl (1 / 100)"
  proof (cases "a \<le> b")
    case True
    then have "min a b = a" by simp
    with zero [of a] cent show ?thesis by simp
  next
    case False
    then have "min a b = b" by simp
    with zero [of b] cent show ?thesis by simp
  qed
  with run show
    "((if dminus (snd (debtors ! debtorIndex))
             (min (snd (debtors ! debtorIndex)) (snd (creditors ! creditorIndex))) < fl (1 / 100)
        then debtorIndex + 1 else debtorIndex,
       if dminus (snd (creditors ! creditorIndex))
             (min (snd (debtors ! debtorIndex)) (snd (creditors ! creditorIndex))) < fl (1 / 100)
        then creditorIndex + 1 else creditorIndex,
       debtors[debtorIndex :=
          (fst (debtors ! debtorIndex),
           dminus (snd (debtors ! debtorIndex))
             (min (snd (debtors ! debtorIndex)) (snd (creditors ! creditorIndex))))],
       creditors[creditorIndex :=
          (fst (creditors ! creditorIndex),
           dminus (snd (creditors ! creditorIndex))
             (min (snd (debtors ! debtorIndex)) (snd (creditors ! creditorIndex))))],
       debts' @
          [\<lparr>t_debtor = fst (debtors ! debtorIndex),
            t_creditor = fst (creditors ! creditorIndex),
            t_amount =
              ddivide (Math_round (dtimes (min (snd (debtors ! debtorIndex))
                                               (snd (creditors ! creditorIndex))) 100)) 100\<rparr>]),
      debtorIndex, creditorIndex, debtors, creditors, debts')
     \<in> measure (\<lambda>(di, ci, ds, cs, acc). (length ds - di) + (length cs - ci))"
    unfolding a_def b_def by auto
qed

definition calculateOptimalDebts :: "balances \<Rightarrow> transfer list" where
  "calculateOptimalDebts balances' =
     (let debtors = concat (map (\<lambda>(userId, balance).
                        case balance of
                          Some b \<Rightarrow> if b > fl (1 / 100) then [(userId, b)] else []
                        | None \<Rightarrow> []) balances');
          creditors = concat (map (\<lambda>(userId, balance).
                        case balance of
                          Some b \<Rightarrow> if b > fl (1 / 100) then []
                                    else if b < - fl (1 / 100) then [(userId, \<bar>b\<bar>)] else []
                        | None \<Rightarrow> []) balances')
      in match_loop 0 0 debtors creditors [])"

text \<open>
  \<open>new Debt({creditor, debtor, amount, group, status: "pending"})\<close>: \<open>status\<close> is
  dropped, the paths that are not given take the defaults of the schema, \<open>expense\<close> and
  \<open>originalAmount\<close> stay absent, and the new document gets an \<open>_id\<close> that no stored
  debt has.  \<open>create_debts\<close> is \<open>Promise.all\<close> of the \<open>save()\<close> of each new
  document: every document that passes validation is stored, and the whole rejects if one
  does not.
\<close>

definition fresh_id :: "debt list \<Rightarrow> objectId" where
  "fresh_id ds = Suc (foldr max (map d_id ds) 0)"

definition new_Debt :: "objectId \<Rightarrow> transfer \<Rightarrow> objectId \<Rightarrow> debt" where
  "new_Debt i debt' groupId =
     \<lparr>d_id = i, debtor = t_debtor debt', creditor = t_creditor debt', d_expense = None,
      d_group = groupId, d_amount = t_amount debt', originalAmount = None, d_isPaid = False,
      d_paidAt = None, partialPayments = [], reminderCount = 0, lastReminderSent = None,
      nextReminderDate = None, d_isActive = True, dueDate = None, d_notes = [], isNew = True\<rparr>"

fun create_debts :: "date \<Rightarrow> objectId \<Rightarrow> transfer list \<Rightarrow> debt list \<Rightarrow> error option \<times> debt list" where
  "create_debts now groupId [] ds = (None, ds)"
| "create_debts now groupId (debt' # rest) ds =
     (let doc = new_Debt (fresh_id ds) debt' groupId
      in if validate doc
         then create_debts now groupId rest (ds @ [save now doc])
         else (Some (Error ''ValidationError''), snd (create_debts now groupId rest ds)))"

text \<open>
  \<open>Debt.deleteMany({group: groupId, status: "pending"})\<close>: the collection that is left.
\<close>

definition deleteMany :: "odm \<Rightarrow> objectId \<Rightarrow> debt list \<Rightarrow> debt list" where
  "deleteMany opts groupId ds =
     filter (\<lambda>d. \<not> (d_group d = groupId \<and> (strictQuery opts \<or> status d = Some ''pending''))) ds"

text \<open>
  \<open>calculateDebts\<close> returns what it throws, or the debts it returns, and the store
  afterwards.  The query for the expenses populates \<open>splitDetails.user\<close>, which is
  applied to the documents found.
\<close>

definition calculateDebts :: "odm \<Rightarrow> date \<Rightarrow> objectId \<Rightarrow> store \<Rightarrow> (error + transfer list) \<times> store" where
  "calculateDebts opts now groupId s =
     (let expenses' = filter (\<lambda>e. e_group e = groupId) (expenses s)
      in if strictPopulate opts \<and> expenses' \<noteq> []
         then (Inl (Error ''StrictPopulateError''), s)
         else case find (\<lambda>g. g_id g = groupId) (groups s) of
           None \<Rightarrow> (Inl (Error ''Group not found''), s)
         | Some group' \<Rightarrow>
             (case member_balances (members group') expenses' of
                Inl err \<Rightarrow> (Inl err, s)
              | Inr memberBalances \<Rightarrow>
                  (let kept = deleteMany opts groupId (debts s);
                       debts' = calculateOptimalDebts memberBalances;
                       created = create_debts now groupId debts' kept
                   in case fst created of
                        Some err \<Rightarrow> (Inl err, s\<lparr>debts := snd created\<rparr>)
                      | None \<Rightarrow> (Inr debts', s\<lparr>debts := snd created\<rparr>))))"

record userDebtSummary =
  owedToUser_amount :: number
  owedToUser_count :: nat
  userOwes_amount :: number
  userOwes_count :: nat
  netBalance :: number

text \<open>
  The two aggregations match on \<open>status: "pending"\<close> against the stored documents,
  and \<open>$sum\<close> adds the amounts of the matched documents as doubles.
\<close>

definition getUserDebtSummary :: "objectId \<Rightarrow> store \<Rightarrow> userDebtSummary" where
  "getUserDebtSummary userId s =
     (let owedToUser = filter (\<lambda>d. creditor d = userId \<and> status d = Some ''pending'') (debts s);
          userOwes = filter (\<lambda>d. debtor d = userId \<and> status d = Some ''pending'') (debts s)
      in \<lparr>owedToUser_amount = reduce_sum d_amount owedToUser,
          owedToUser_count = length owedToUser,
          userOwes_amount = reduce_sum d_amount userOwes,
          userOwes_count = length userOwes,
          netBalance = dminus (reduce_sum d_amount owedToUser) (reduce_sum d_amount userOwes)\<rparr>)"

subsection \<open>Expense controller (controllers/expenseController.js)\<close>

record response =
  statusCode :: nat
  success :: bool
  message :: string

text \<open>\<open>Expense.findByIdAndDelete\<close> removes the first stored expense with the given \<open>_id\<close>.\<close>

fun findByIdAndDelete :: "objectId \<Rightarrow> expense list \<Rightarrow> expense list" where
  "findByIdAndDelete i [] = []"
| "findByIdAndDelete i (e # es) = (if e_id e = i then es else e # findByIdAndDelete i es)"

text \<open>
  \<open>deleteExpense\<close> for the signed-in user \<open>reqUser\<close> and the expense id of the
  request.  An error thrown by \<open>calculateDebts\<close> is caught and answered with 500, after
  the expense was deleted.
\<close>

definition deleteExpense :: "odm \<Rightarrow> date \<Rightarrow> objectId \<Rightarrow> objectId \<Rightarrow> store \<Rightarrow> response \<times> store" where
  "deleteExpense opts now reqUser expenseId s =
     (case find (\<lambda>e. e_id e = expenseId) (expenses s) of
        None \<Rightarrow> (\<lparr>statusCode = 404, success = False, message = ''Expense not found''\<rparr>, s)
      | Some expense \<Rightarrow>
          if paidBy expense \<noteq> reqUser
          then (\<lparr>statusCode = 403, success = False, message = ''Access denied''\<rparr>, s)
          else (let groupId = e_group expense;
                    s1 = s\<lparr>expenses := findByIdAndDelete expenseId (expenses s)\<rparr>;
                    r = calculateDebts opts now groupId s1
                in case fst r of
                     Inl err \<Rightarrow> (\<lparr>statusCode = 500, success = False, message = ''Server error''\<rparr>, snd r)
                   | Inr debts' \<Rightarrow>
                       (\<lparr>statusCode = 200, success = True,
                         message = ''Expense deleted successfully''\<rparr>, snd r)))"

section \<open>Example data\<close>

text \<open>An expense of 100 paid by user 1, before its splits are computed.\<close>

definition expense100 :: expense where
  "expense100 =
     \<lparr>e_id = 10, e_amount = 100, paidBy = 1, e_group = 7, splits = [],
      splitMethod = ''equal'', e_isActive = True, isSettled = False\<rparr>"

text \<open>
  Custom and percentage splits for it: 60 and 30, which miss the total by 10, and 60 and
  40.  An expense of 1 with the custom splits 0.30 and 0.71, and the percentages 0.4 and
  99.61: each pair is one hundredth above its target.
\<close>

definition custom_60_30 :: "customSplit list" where
  "custom_60_30 = [\<lparr>cs_userId = 1, cs_amount = 60\<rparr>, \<lparr>cs_userId = 2, cs_amount = 30\<rparr>]"

definition percent_60_30 :: "percentageSplit list" where
  "percent_60_30 = [\<lparr>ps_userId = 1, ps_percentage = 60\<rparr>, \<lparr>ps_userId = 2, ps_percentage = 30\<rparr>]"

definition custom_60_40 :: "customSplit list" where
  "custom_60_40 = [\<lparr>cs_userId = 1, cs_amount = 60\<rparr>, \<lparr>cs_userId = 2, cs_amount = 40\<rparr>]"

definition percent_60_40 :: "percentageSplit list" where
  "percent_60_40 = [\<lparr>ps_userId = 1, ps_percentage = 60\<rparr>, \<lparr>ps_userId = 2, ps_percentage = 40\<rparr>]"

definition expense1 :: expense where
  "expense1 =
     \<lparr>e_id = 12, e_amount = 1, paidBy = 1, e_group = 7, splits = [],
      splitMethod = ''equal'', e_isActive = True, isSettled = False\<rparr>"

definition custom_030_071 :: "customSplit list" where
  "custom_030_071 =
     [\<lparr>cs_userId = 1, cs_amount = fl (30 / 100)\<rparr>, \<lparr>cs_userId = 2, cs_amount = fl (71 / 100)\<rparr>]"

definition percent_040_9961 :: "percentageSplit list" where
  "percent_040_9961 =
     [\<lparr>ps_userId = 1, ps_percentage = fl (40 / 100)\<rparr>,
      \<lparr>ps_userId = 2, ps_percentage = fl (9961 / 100)\<rparr>]"

text \<open>
  The lunch scenario: group 7 has the members A, B and C, the users 1, 2 and 3, as the
  member sub-documents 101, 102 and 103; user 1 pays 900, split equally among the three.
  The splits are the ones the split calculator computes.
\<close>

definition lunch900 :: expense where
  "lunch900 =
     calculateEqualSplits
       \<lparr>e_id = 11, e_amount = 900, paidBy = 1, e_group = 7, splits = [],
        splitMethod = ''equal'', e_isActive = True, isSettled = False\<rparr> [1, 2, 3]"

definition group7 :: group where
  "group7 =
     \<lparr>g_id = 7,
      members = [\<lparr>m_id = 101, m_user = 1, m_isActive = True\<rparr>,
                 \<lparr>m_id = 102, m_user = 2, m_isActive = True\<rparr>,
                 \<lparr>m_id = 103, m_user = 3, m_isActive = True\<rparr>]\<rparr>"

definition lunch_store :: store where
  "lunch_store = \<lparr>expenses = [lunch900], groups = [group7], debts = []\<rparr>"

text \<open>
  A debt of 300 that user 2 owes user 1 for the lunch, before it is stored, once stored at
  time 0, and after a reminder for it was sent on the eighth day (at 691200000 ms).
\<close>

definition debt300 :: debt where
  "debt300 =
     \<lparr>d_id = 21, debtor = 2, creditor = 1, d_expense = Some 11, d_group = 7, d_amount = 300,
      originalAmount = Some 300, d_isPaid = False, d_paidAt = None, partialPayments = [],
      reminderCount = 0, lastReminderSent = None, nextReminderDate = None, d_isActive = True,
      dueDate = None, d_notes = [], isNew = True\<rparr>"

definition stored_debt300 :: debt where
  "stored_debt300 = save 0 debt300"

definition reminded_debt :: debt where
  "reminded_debt = sendReminder 691200000 stored_debt300"

text \<open>
  Stored, unpaid, active debts of group 7: \<open>owes i a b x\<close> is the debt with id \<open>i\<close>
  by which user \<open>a\<close> owes user \<open>b\<close> the amount \<open>x\<close>.
\<close>

definition owes :: "objectId \<Rightarrow> objectId \<Rightarrow> objectId \<Rightarrow> number \<Rightarrow> debt" where
  "owes i a b x =
     \<lparr>d_id = i, debtor = a, creditor = b, d_expense = Some i, d_group = 7, d_amount = x,
      originalAmount = Some x, d_isPaid = False, d_paidAt = None, partialPayments = [],
      reminderCount = 0, lastReminderSent = None, nextReminderDate = Some 86400000,
      d_isActive = True, dueDate = Some 604800000, d_notes = [], isNew = False\<rparr>"

text \<open>
  A stored debt of 0.03 on which 0.01 has been paid, and the payment record that
  \<open>addPartialPayment\<close> pushes for an amount, a note and a confirming user.
\<close>

definition paid_cent :: payment where
  "paid_cent = \<lparr>p_amount = fl (1 / 100), p_paidAt = 0, p_note = [], p_confirmedBy = None\<rparr>"

definition debt_3_cents :: debt where
  "debt_3_cents = (owes 41 2 1 (fl (3 / 100)))\<lparr>partialPayments := [paid_cent]\<rparr>"

definition debt_100 :: debt where
  "debt_100 = owes 42 2 1 100"

section \<open>Rounding to a double\<close>

lemmas fl_eval = fl_def floor_log2_def round_half_even_def Let_def compute_floorlog
  power_int_minus_divide

lemma floor_log2_bounds:
  assumes "0 < x"
  shows "2 powi (floor_log2 x) \<le> x \<and> x < 2 powi (floor_log2 x + 1)"
proof (cases "1 \<le> x")
  case True
  define n where "n = nat \<lfloor>x\<rfloor>"
  define k where "k = floorlog 2 n"
  from True have n1: "1 \<le> n" unfolding n_def by (simp add: le_nat_iff le_floor_iff)
  then have b: "2 ^ (k - 1) \<le> n \<and> n < 2 ^ k"
    unfolding k_def using floorlog_bounds [of n 2] by simp
  have "floorlog 2 n \<noteq> 0"
    using n1 by (simp add: floorlog_eq_zero_iff)
  then have k1: "1 \<le> k"
    unfolding k_def by simp
  have e: "floor_log2 x = int (k - 1)"
    using True k1 by (simp add: floor_log2_def n_def k_def)
  have "0 \<le> \<lfloor>x\<rfloor>" using True by simp
  then have rn: "(of_nat n :: real) = of_int \<lfloor>x\<rfloor>"
    unfolding n_def by (rule of_nat_nat)
  have nx: "of_nat n \<le> x" and xn: "x < of_nat n + 1"
    unfolding rn by linarith+
  have "(2::real) ^ (k - 1) \<le> of_nat n"
    using of_nat_mono [of "2 ^ (k - 1)" n, where 'a = real] b by simp
  then have lo: "(2::real) ^ (k - 1) \<le> x" using nx by (rule order_trans)
  have "n + 1 \<le> 2 ^ k" using b by simp
  then have "(of_nat n :: real) + 1 \<le> 2 ^ k"
    using of_nat_mono [of "n + 1" "2 ^ k", where 'a = real] by simp
  with xn have hi: "x < (2::real) ^ k" by (rule less_le_trans)
  have k': "int (k - 1) + 1 = int k" using k1 by simp
  have q1: "(2::real) powi (int (k - 1)) = 2 ^ (k - 1)" by (rule power_int_of_nat)
  have q2: "(2::real) powi (int (k - 1) + 1) = 2 ^ k" unfolding k' by (rule power_int_of_nat)
  show ?thesis
    unfolding e q1 q2 using lo hi by (rule conjI)
next
  case False
  define c where "c = \<lceil>1 / x\<rceil>"
  define n where "n = nat (c - 1)"
  define k where "k = floorlog 2 n"
  from False assms have "1 < inverse x"
    by (simp add: one_less_inverse_iff)
  then have y1: "1 < 1 / x" by (simp add: inverse_eq_divide)
  have yc: "1 / x \<le> of_int c" and cy: "of_int c - 1 < 1 / x"
    unfolding c_def by linarith+
  from y1 yc have "(1::real) < of_int c" by (rule less_le_trans)
  then have c2: "2 \<le> c" by simp
  then have n1: "1 \<le> n" and nc: "c = int n + 1" unfolding n_def by simp_all
  from n1 have b: "2 ^ (k - 1) \<le> n \<and> n < 2 ^ k"
    unfolding k_def using floorlog_bounds [of n 2] by simp
  have "floorlog 2 n \<noteq> 0"
    using n1 by (simp add: floorlog_eq_zero_iff)
  then have k1: "1 \<le> k"
    unfolding k_def by simp
  have e: "floor_log2 x = - int k"
    using False by (simp add: floor_log2_def n_def k_def c_def)
  have cn: "(of_int c :: real) = of_nat n + 1"
    unfolding nc by simp
  have "n + 1 \<le> 2 ^ k" using b by simp
  then have "(of_nat n :: real) + 1 \<le> 2 ^ k"
    using of_nat_mono [of "n + 1" "2 ^ k", where 'a = real] by simp
  with yc have y2: "1 / x \<le> 2 ^ k" unfolding cn by (rule order_trans)
  have pk: "(0::real) < 2 ^ k" by simp
  from y2 have "1 \<le> 2 ^ k * x"
    using assms by (simp only: pos_divide_le_eq)
  then have lo: "1 / 2 ^ k \<le> x"
    using pk by (simp only: pos_divide_le_eq mult.commute)
  have "(2::real) ^ (k - 1) \<le> of_nat n"
    using of_nat_mono [of "2 ^ (k - 1)" n, where 'a = real] b by simp
  moreover have "(of_nat n :: real) < 1 / x" using cy unfolding cn by simp
  ultimately have y3: "(2::real) ^ (k - 1) < 1 / x" by (rule le_less_trans)
  have pk': "(0::real) < 2 ^ (k - 1)" by simp
  from y3 have "2 ^ (k - 1) * x < 1"
    using assms by (simp only: pos_less_divide_eq)
  then have hi: "x < 1 / 2 ^ (k - 1)"
    using pk' by (simp only: pos_less_divide_eq mult.commute)
  have p1: "(2::real) powi (- int k) = 1 / 2 ^ k"
    by (simp add: power_int_minus_divide)
  have k': "- int k + 1 = - int (k - 1)" using k1 by simp
  have p2: "(2::real) powi (- int k + 1) = 1 / 2 ^ (k - 1)"
    unfolding k' by (simp add: power_int_minus_divide)
  show ?thesis
    unfolding e p1 p2 using lo hi by (rule conjI)
qed

lemma round_half_even_error: "\<bar>of_int (round_half_even y) - y\<bar> \<le> 1 / 2"
proof -
  define n where "n = \<lfloor>y\<rfloor>"
  define r where "r = y - of_int n"
  have r: "0 \<le> r" "r < 1"
    unfolding r_def n_def by linarith+
  have y: "y = of_int n + r" unfolding r_def by simp
  have m: "round_half_even y
             = (if r < 1 / 2 then n else if 1 / 2 < r then n + 1 else if even n then n else n + 1)"
    unfolding round_half_even_def Let_def n_def r_def ..
  have "of_int (round_half_even y) - y
          = (if r < 1 / 2 then - r else if 1 / 2 < r then 1 - r else if even n then - r else 1 - r)"
    unfolding m by (simp add: r_def)
  then show ?thesis
    using r by (auto simp: abs_le_iff split: if_splits)
qed

lemma round_half_even_ge: "of_int n \<le> y \<Longrightarrow> n \<le> round_half_even y"
proof -
  assume "of_int n \<le> y"
  then have "n \<le> \<lfloor>y\<rfloor>" by (simp add: le_floor_iff)
  moreover have "\<lfloor>y\<rfloor> \<le> round_half_even y"
    unfolding round_half_even_def Let_def by simp
  ultimately show ?thesis by simp
qed

lemma fl_zero: "fl 0 = 0"
  by (simp add: fl_def)

lemma fl_minus: "fl (- x) = - fl x"
  by (simp add: fl_def Let_def)

lemma fl_scaled:
  assumes "x \<noteq> 0"
  defines "s \<equiv> 2 powi (floor_log2 \<bar>x\<bar> - 52)"
  shows "0 < s" and "2 ^ 52 * s \<le> \<bar>x\<bar>" and "fl x = sgn x * of_int (round_half_even (\<bar>x\<bar> / s)) * s"
proof -
  show "0 < s" unfolding s_def by simp
  have "2 powi (floor_log2 \<bar>x\<bar>) \<le> \<bar>x\<bar>"
    using floor_log2_bounds [of "\<bar>x\<bar>"] assms(1) by simp
  moreover have "(2::real) powi (floor_log2 \<bar>x\<bar>) = 2 ^ 52 * s"
    unfolding s_def by (simp add: power_int_diff)
  ultimately show "2 ^ 52 * s \<le> \<bar>x\<bar>" by simp
  show "fl x = sgn x * of_int (round_half_even (\<bar>x\<bar> / s)) * s"
    using assms(1) unfolding s_def by (simp add: fl_def Let_def)
qed

lemma fl_pos:
  assumes "0 < x"
  shows "0 < fl x"
proof -
  define s where "s = (2::real) powi (floor_log2 \<bar>x\<bar> - 52)"
  from assms have nz: "x \<noteq> 0" by simp
  note f = fl_scaled [OF nz, folded s_def]
  have "1 \<le> \<bar>x\<bar> / s"
    using f(1,2) by (simp add: field_simps)
  then have "1 \<le> round_half_even (\<bar>x\<bar> / s)"
    using round_half_even_ge [of 1 "\<bar>x\<bar> / s"] by simp
  then have "0 < (of_int (round_half_even (\<bar>x\<bar> / s)) :: real)" by simp
  with f(1) assms show ?thesis
    unfolding f(3) by simp
qed

lemma fl_error: "\<bar>fl x - x\<bar> \<le> \<bar>x\<bar> / 2 ^ 53"
proof (cases "x = 0")
  case True
  then show ?thesis by (simp add: fl_zero)
next
  case False
  define s where "s = (2::real) powi (floor_log2 \<bar>x\<bar> - 52)"
  define m where "m = round_half_even (\<bar>x\<bar> / s)"
  note f = fl_scaled [OF False, folded s_def, folded m_def]
  have "\<bar>of_int m - \<bar>x\<bar> / s\<bar> \<le> 1 / 2"
    unfolding m_def by (rule round_half_even_error)
  then have "\<bar>of_int m - \<bar>x\<bar> / s\<bar> * s \<le> 1 / 2 * s"
    using f(1) by (simp add: mult_right_mono)
  moreover have "of_int m * s - \<bar>x\<bar> = (of_int m - \<bar>x\<bar> / s) * s"
    using f(1) by (simp add: left_diff_distrib)
  then have "\<bar>of_int m - \<bar>x\<bar> / s\<bar> * s = \<bar>of_int m * s - \<bar>x\<bar>\<bar>"
    using f(1) by (simp add: abs_mult)
  ultimately have e: "\<bar>of_int m * s - \<bar>x\<bar>\<bar> \<le> s / 2" by simp
  have "\<bar>fl x - x\<bar> = \<bar>sgn x * (of_int m * s - \<bar>x\<bar>)\<bar>"
    unfolding f(3) by (simp add: right_diff_distrib mult.assoc mult_sgn_abs [of x])
  also have "\<dots> = \<bar>of_int m * s - \<bar>x\<bar>\<bar>"
    using False by (simp add: abs_mult abs_sgn_eq)
  finally have "\<bar>fl x - x\<bar> \<le> s / 2" using e by simp
  moreover have "s / 2 \<le> \<bar>x\<bar> / 2 ^ 53"
    using f(2) by (simp add: field_simps)
  ultimately show ?thesis by simp
qed

lemma fl_neg: "x < 0 \<Longrightarrow> fl x < 0"
  using fl_pos [of "- x"] by (simp add: fl_minus)

lemma fl_sign:
  "(0 < fl x \<longleftrightarrow> 0 < x) \<and> (fl x < 0 \<longleftrightarrow> x < 0) \<and> (fl x = 0 \<longleftrightarrow> x = 0)"
proof -
  consider (pos) "0 < x" | (zero) "x = 0" | (neg) "x < 0" by linarith
  then show ?thesis
  proof cases
    case pos
    with fl_pos [of x] show ?thesis by simp
  next
    case zero
    then show ?thesis by (simp add: fl_zero)
  next
    case neg
    with fl_neg [of x] show ?thesis by simp
  qed
qed

lemma fl_pos_iff: "0 < fl x \<longleftrightarrow> 0 < x"
  using fl_sign [of x] by blast

lemma fl_neg_iff: "fl x < 0 \<longleftrightarrow> x < 0"
  using fl_sign [of x] by blast

lemma fl_eq_0_iff: "fl x = 0 \<longleftrightarrow> x = 0"
  using fl_sign [of x] by blast

lemma cent_value: "fl (1 / 100) = 5764607523034235 / 576460752303423488"
  by (simp add: fl_eval)

lemma cent_pos: "0 < fl (1 / 100)"
  by (simp add: cent_value)

lemma dminus_swap: "dminus y x = - dminus x y"
  using fl_minus [of "x - y"] by (simp add: dminus_def)

lemma dminus_pos_iff: "0 < dminus x y \<longleftrightarrow> y < x"
  by (simp add: dminus_def fl_pos_iff)

lemma dminus_neg_iff: "dminus x y < 0 \<longleftrightarrow> x < y"
  by (simp add: dminus_def fl_neg_iff)

lemma dminus_eq_0_iff: "dminus x y = 0 \<longleftrightarrow> x = y"
  by (simp add: dminus_def fl_eq_0_iff)

section \<open>Split calculator\<close>

lemmas d_eval = dplus_def dminus_def dtimes_def ddivide_def Math_round_def

lemma cents_100_3: "ddivide (Math_round (dtimes (ddivide 100 3) 100)) 100 = fl (3333 / 100)"
  by (simp add: d_eval fl_eval)

lemma sum_3333:
  "dplus (dplus (dplus 0 (fl (3333 / 100))) (fl (3333 / 100))) (fl (3333 / 100)) = fl (9999 / 100)"
  by (simp add: d_eval fl_eval)

lemma off_by_cent: "\<bar>dminus (fl (9999 / 100)) 100\<bar> > fl (1 / 100)"
  by (simp add: d_eval fl_eval)

lemma fl_9999: "fl (9999 / 100) \<noteq> 100"
  by (simp add: fl_eval)

lemma equal_splits_100_3:
  "map s_amount (splits (calculateEqualSplits expense100 [1, 2, 3]))
     = [fl (3333 / 100), fl (3333 / 100), fl (3333 / 100)]"
proof -
  have "map s_amount (splits (calculateEqualSplits expense100 [1, 2, 3]))
     = [ddivide (Math_round (dtimes (ddivide 100 3) 100)) 100,
        ddivide (Math_round (dtimes (ddivide 100 3) 100)) 100,
        ddivide (Math_round (dtimes (ddivide 100 3) 100)) 100]"
    by (simp add: calculateEqualSplits_def expense100_def Let_def)
  then show ?thesis unfolding cents_100_3 .
qed

text \<open>
  C1 fails on the code.  An expense of 100 split equally among three users gets three
  splits of 33.33: every split is rounded on its own, no split absorbs the remainder, and
  the splits sum to 99.99.  The expense's own \<open>pre("save")\<close> hook then refuses the
  expense, because in doubles 100 - 99.99 exceeds 0.01.  The payer's split is marked paid.
\<close>

theorem equal_splits_miss_total:
  "map s_amount (splits (calculateEqualSplits expense100 [1, 2, 3]))
     = [fl (3333 / 100), fl (3333 / 100), fl (3333 / 100)]
   \<and> reduce_sum s_amount (splits (calculateEqualSplits expense100 [1, 2, 3])) = fl (9999 / 100)
   \<and> reduce_sum s_amount (splits (calculateEqualSplits expense100 [1, 2, 3])) \<noteq> e_amount expense100
   \<and> map s_isPaid (splits (calculateEqualSplits expense100 [1, 2, 3])) = [True, False, False]
   \<and> expense_pre_save (calculateEqualSplits expense100 [1, 2, 3])
       = Some (Error ''Split amounts must equal the total expense amount'')"
proof -
  let ?e = "calculateEqualSplits expense100 [1, 2, 3]"
  have ne: "splits ?e \<noteq> []"
    by (simp add: calculateEqualSplits_def Let_def)
  have am: "e_amount ?e = 100"
    by (simp add: calculateEqualSplits_def expense100_def Let_def)
  have "reduce_sum s_amount (splits ?e) = foldl dplus 0 (map s_amount (splits ?e))"
    by (simp add: reduce_sum_def foldl_map)
  then have total: "reduce_sum s_amount (splits ?e) = fl (9999 / 100)"
    unfolding equal_splits_100_3 by (simp add: sum_3333)
  have paid: "map s_isPaid (splits ?e) = [True, False, False]"
    by (simp add: calculateEqualSplits_def expense100_def Let_def)
  have hook: "expense_pre_save ?e = Some (Error ''Split amounts must equal the total expense amount'')"
    unfolding expense_pre_save_def Let_def total am using ne off_by_cent by simp
  have "e_amount expense100 = 100" by (simp add: expense100_def)
  with equal_splits_100_3 total paid hook fl_9999 show ?thesis by simp
qed

section \<open>Reminders\<close>

text \<open>
  C10.  Saving a new debt that has no due date sets the due date to the time of the save
  plus 7 days; saving a new debt that has no next reminder date sets it to the time of
  the save plus 24 hours; a new debt never leaves \<open>save\<close> without a next reminder date.
\<close>

theorem save_sets_reminder_dates:
  "isNew this \<longrightarrow>
     (dueDate this = None \<longrightarrow> dueDate (save now this) = Some (now + 7 * 24 * 60 * 60 * 1000))
   \<and> (nextReminderDate this = None \<longrightarrow>
        nextReminderDate (save now this) = Some (now + 24 * 60 * 60 * 1000))
   \<and> nextReminderDate (save now this) \<noteq> None"
  by (cases "dueDate this"; cases "nextReminderDate this")
     (simp_all add: save_def pre_save_def calculateNextReminder_def Let_def)

theorem save_sets_reminder_dates_witness:
  "isNew debt300 \<and> dueDate debt300 = None \<and> nextReminderDate debt300 = None
   \<and> dueDate (save 1000 debt300) = Some 604801000
   \<and> nextReminderDate (save 1000 debt300) = Some 86401000"
  using save_sets_reminder_dates [of debt300 1000] by (simp add: debt300_def)

text \<open>
  C8 (as the code has it).  \<open>findNeedingReminders\<close> returns exactly the unpaid, active
  debts whose next reminder date is absent or not after \<open>now\<close>.  An unpaid debt whose
  due date lies in the past is among them exactly when it is active and its next reminder
  date is absent or not after \<open>now\<close>.
\<close>

theorem findNeedingReminders_selects:
  "set (findNeedingReminders now ds)
     = {d \<in> set ds. \<not> d_isPaid d \<and> d_isActive d
          \<and> (nextReminderDate d = None \<or> (\<exists>t. nextReminderDate d = Some t \<and> t \<le> now))}
   \<and> (\<forall>d \<in> set ds. (\<exists>t. dueDate d = Some t \<and> t < now) \<and> \<not> d_isPaid d \<longrightarrow>
         (d \<in> set (findNeedingReminders now ds)
            \<longleftrightarrow> d_isActive d
              \<and> (nextReminderDate d = None \<or> (\<exists>t. nextReminderDate d = Some t \<and> t \<le> now))))"
  by (auto simp: findNeedingReminders_def split: option.splits)

theorem findNeedingReminders_selects_witness:
  "stored_debt300 \<in> set [stored_debt300, reminded_debt]
   \<and> (\<exists>t. dueDate (stored_debt300) = Some t \<and> t < 694800000) \<and> \<not> d_isPaid (stored_debt300)
   \<and> stored_debt300 \<in> set (findNeedingReminders 694800000 [stored_debt300, reminded_debt])"
proof -
  have d: "stored_debt300 = debt300\<lparr>dueDate := Some 604800000, nextReminderDate := Some 86400000, isNew := False\<rparr>"
    by (simp add: stored_debt300_def save_def pre_save_def calculateNextReminder_def debt300_def)
  have h1: "stored_debt300 \<in> set [stored_debt300, reminded_debt]" by simp
  have h2: "(\<exists>t. dueDate (stored_debt300) = Some t \<and> t < 694800000) \<and> \<not> d_isPaid (stored_debt300)"
    unfolding d by (simp add: debt300_def)
  have h3: "d_isActive (stored_debt300)
     \<and> (nextReminderDate (stored_debt300) = None
          \<or> (\<exists>t. nextReminderDate (stored_debt300) = Some t \<and> t \<le> 694800000))"
    unfolding d by (simp add: debt300_def)
  from findNeedingReminders_selects [of 694800000 "[stored_debt300, reminded_debt]"] h1 h2 h3
  show ?thesis by blast
qed

text \<open>
  C8 (as stated) fails: a debt stored at time 0 is due after 7 days; a reminder for it is
  sent on the eighth day, which moves its next reminder date to the ninth day.  One hour
  after that reminder the debt is overdue and unpaid, and is not due for a reminder.
\<close>

theorem overdue_not_due_for_reminder_counterexample:
  "dueDate reminded_debt = Some 604800000 \<and> (604800000 :: date) < 694800000
   \<and> d_isPaid reminded_debt = False \<and> d_isActive reminded_debt = True
   \<and> findNeedingReminders 694800000 [reminded_debt] = []"
  by (simp add: reminded_debt_def stored_debt300_def sendReminder_def save_def pre_save_def calculateNextReminder_def
        debt300_def findNeedingReminders_def)


end
